theory Spec2Isabelle
  imports Main
begin

section \<open>Python text and values\<close>

text \<open>
  The agent's reply is a Python \<open>str\<close>. It is modelled as a \<open>string\<close> whose
  characters are the code points 0..255; on that range the character classes of
  Python's \<open>re\<close> module (Unicode mode) and of \<open>str.strip\<close>, \<open>str.lower\<close> are the
  ones written out below.
\<close>

definition is_space :: "char \<Rightarrow> bool" where
  \<comment> \<open>\<open>\s\<close> and \<open>str.isspace\<close>: TAB..CR, FS..US, space, NEL, NBSP\<close>
  "is_space c =
     (let n = (of_char c :: nat)
      in (9 \<le> n \<and> n \<le> 13) \<or> (28 \<le> n \<and> n \<le> 32) \<or> n = 133 \<or> n = 160)"

definition is_digit :: "char \<Rightarrow> bool" where
  \<comment> \<open>\<open>\d\<close>: the decimal digits\<close>
  "is_digit c = (let n = (of_char c :: nat) in 48 \<le> n \<and> n \<le> 57)"

definition lower_char :: "char \<Rightarrow> char" where
  "lower_char c =
     (let n = (of_char c :: nat)
      in if (65 \<le> n \<and> n \<le> 90) \<or> (192 \<le> n \<and> n \<le> 222 \<and> n \<noteq> 215)
         then char_of (n + 32) else c)"

definition upper_char :: "char \<Rightarrow> char" where
  \<comment> \<open>\<open>str.upper\<close> on the letters it is applied to here (a match of \<open>[A-D]\<close>)\<close>
  "upper_char c =
     (let n = (of_char c :: nat)
      in if 97 \<le> n \<and> n \<le> 122 then char_of (n - 32) else c)"

definition lower :: "string \<Rightarrow> string" where
  "lower s = map lower_char s"

definition upper :: "string \<Rightarrow> string" where
  "upper s = map upper_char s"

definition strip :: "string \<Rightarrow> string" where
  "strip s = rev (dropWhile is_space (rev (dropWhile is_space s)))"

fun is_prefix :: "string \<Rightarrow> string \<Rightarrow> bool" where
  "is_prefix [] s = True"
| "is_prefix (p # ps) [] = False"
| "is_prefix (p # ps) (c # cs) = (p = c \<and> is_prefix ps cs)"

fun contains :: "string \<Rightarrow> string \<Rightarrow> bool" where
  \<comment> \<open>\<open>sub in s\<close>\<close>
  "contains sub [] = is_prefix sub []"
| "contains sub (c # cs) = (is_prefix sub (c # cs) \<or> contains sub cs)"

section \<open>Exceptions\<close>

text \<open>
  An exception is a value. What the program observes of one is whether the handler
  \<open>except Exception\<close> catches it, and its \<open>str()\<close>. The exceptions that the program's own
  steps can raise carry what their message is made of; an exception raised by code
  outside the program (the agent, an object's \<open>__bool__\<close> or \<open>__str__\<close>) is given by
  whether it is an instance of \<open>Exception\<close> (\<open>KeyboardInterrupt\<close> and \<open>SystemExit\<close> are
  not) and by its \<open>str()\<close>.
\<close>

datatype exn =
    AttributeError string   \<comment> \<open>\<open>.group\<close> on \<open>None\<close>; the message\<close>
  | IndexError string       \<comment> \<open>list index out of range, \<open>random.choice\<close> of an empty list; the message\<close>
  | ValueError string       \<comment> \<open>\<open>int()\<close> of a non-numeral; the message\<close>
  | KeyError string         \<comment> \<open>a dictionary has no such key; the key\<close>
  | External bool string    \<comment> \<open>raised outside the program: instance of \<open>Exception\<close>?, \<open>str()\<close>\<close>


definition is_printable :: "char \<Rightarrow> bool" where
  \<comment> \<open>\<open>str.isprintable\<close> on the code points 0..255\<close>
  "is_printable c =
     (let n = (of_char c :: nat) in (32 \<le> n \<and> n \<le> 126) \<or> (161 \<le> n \<and> n \<noteq> 173))"

definition hex2 :: "nat \<Rightarrow> string" where
  \<comment> \<open>two hexadecimal digits in lower case\<close>
  "hex2 n = [''0123456789abcdef'' ! (n div 16 mod 16), ''0123456789abcdef'' ! (n mod 16)]"

definition repr_char :: "char \<Rightarrow> char \<Rightarrow> string" where
  \<comment> \<open>one character inside \<open>repr\<close> of a \<open>str\<close> whose quote character is \<open>quote\<close>\<close>
  "repr_char quote c =
     (if c = quote \<or> c = CHR 0x5C then [CHR 0x5C, c]
      else if c = CHR 0x09 then [CHR 0x5C, CHR ''t'']
      else if c = CHR 0x0A then [CHR 0x5C, CHR ''n'']
      else if c = CHR 0x0D then [CHR 0x5C, CHR ''r'']
      else if is_printable c then [c]
      else [CHR 0x5C, CHR ''x''] @ hex2 (of_char c))"

definition py_repr :: "string \<Rightarrow> string" where
  \<comment> \<open>\<open>repr(s)\<close> of a \<open>str\<close>: single quotes, unless the text has a single quote and no
      double quote\<close>
  "py_repr s =
     (let quote = (if CHR 0x27 \<in> set s \<and> CHR 0x22 \<notin> set s then CHR 0x22 else CHR 0x27)
      in [quote] @ concat (map (repr_char quote) s) @ [quote])"


section \<open>The values an extractor may be given\<close>

text \<open>
  The extractors are declared on \<open>str\<close> but test their argument, so they are modelled
  on \<open>None\<close>, on a \<open>str\<close> and on any other object. Of an object that is no \<open>str\<close> the
  extractors use \<open>bool(x)\<close> (in \<open>not response\<close>) and \<open>str(x)\<close>; each of the two returns
  or raises, as the class of the object defines it.
\<close>

datatype pyval =
    PyNone
  | PyStr string
  | PyObj "exn + bool" "exn + string"  \<comment> \<open>another object: the outcome of \<open>bool(x)\<close> and of \<open>str(x)\<close>\<close>

fun truthy :: "pyval \<Rightarrow> exn + bool" where
  \<comment> \<open>the truth value taken by \<open>not response\<close> and \<open>if response\<close>\<close>
  "truthy PyNone = Inr False"
| "truthy (PyStr s) = Inr (s \<noteq> [])"
| "truthy (PyObj b s) = b"

fun py_str :: "pyval \<Rightarrow> exn + string" where
  \<comment> \<open>\<open>str(response)\<close>\<close>
  "py_str PyNone = Inr ''None''"
| "py_str (PyStr s) = Inr s"
| "py_str (PyObj b s) = s"

section \<open>Regular expressions of \<open>utils.py\<close>\<close>

text \<open>
  Each pattern is written as a backtracking matcher on the rest of the text: a matcher
  takes the text at the current position and returns what the match yields, or \<open>None\<close>.
  Greedy and lazy repetition try their alternatives in the order of Python's engine.
\<close>

fun lit :: "string \<Rightarrow> (string \<Rightarrow> 'a option) \<Rightarrow> string \<Rightarrow> 'a option" where
  \<comment> \<open>a literal, then the continuation\<close>
  "lit [] k s = k s"
| "lit (p # ps) k [] = None"
| "lit (p # ps) k (c # cs) = (if c = p then lit ps k cs else None)"

fun lit_ci :: "string \<Rightarrow> (string \<Rightarrow> 'a option) \<Rightarrow> string \<Rightarrow> 'a option" where
  \<comment> \<open>a literal under \<open>re.IGNORECASE\<close>, then the continuation\<close>
  "lit_ci [] k s = k s"
| "lit_ci (p # ps) k [] = None"
| "lit_ci (p # ps) k (c # cs) =
     (if lower_char c = lower_char p then lit_ci ps k cs else None)"

fun star_greedy :: "(char \<Rightarrow> bool) \<Rightarrow> (string \<Rightarrow> 'a option) \<Rightarrow> string \<Rightarrow> 'a option" where
  \<comment> \<open>\<open>[class]*\<close>: take one more character first, give it back when the rest fails\<close>
  "star_greedy cl k [] = k []"
| "star_greedy cl k (c # cs) =
     (if cl c
      then (case star_greedy cl k cs of Some r \<Rightarrow> Some r | None \<Rightarrow> k (c # cs))
      else k (c # cs))"

fun plus_lazy :: "(char \<Rightarrow> bool) \<Rightarrow> (string \<Rightarrow> bool) \<Rightarrow> string \<Rightarrow> string option" where
  \<comment> \<open>\<open>([class]+?)\<close> followed by \<open>stop\<close>: the shortest non-empty capture\<close>
  "plus_lazy cl stop [] = None"
| "plus_lazy cl stop (c # cs) =
     (if cl c
      then (if stop cs then Some [c] else map_option ((#) c) (plus_lazy cl stop cs))
      else None)"

fun re_search :: "(string \<Rightarrow> 'a option) \<Rightarrow> string \<Rightarrow> 'a option" where
  \<comment> \<open>\<open>re.search\<close>: the match at the leftmost position that has one\<close>
  "re_search m [] = m []"
| "re_search m (c # cs) = (case m (c # cs) of Some r \<Rightarrow> Some r | None \<Rightarrow> re_search m cs)"

fun re_search_bol :: "(string \<Rightarrow> 'a option) \<Rightarrow> bool \<Rightarrow> string \<Rightarrow> 'a option" where
  \<comment> \<open>\<open>re.search\<close> of \<open>^...\<close> under \<open>re.MULTILINE\<close>; the flag says whether the
      current position is the start of the text or follows a newline\<close>
  "re_search_bol m bol [] = (if bol then m [] else None)"
| "re_search_bol m bol (c # cs) =
     (case (if bol then m (c # cs) else None) of
        Some r \<Rightarrow> Some r
      | None \<Rightarrow> re_search_bol m (c = CHR 0x0A) cs)"

definition eol :: "string \<Rightarrow> bool" where
  \<comment> \<open>\<open>$\<close> without \<open>re.MULTILINE\<close>: the end, or just before a final newline\<close>
  "eol s = (s = [] \<or> s = [CHR 0x0A])"

definition any_char :: "char \<Rightarrow> bool" where
  \<comment> \<open>\<open>.\<close> under \<open>re.DOTALL\<close>\<close>
  "any_char c = True"

definition not_newline :: "char \<Rightarrow> bool" where
  \<comment> \<open>\<open>.\<close> without \<open>re.DOTALL\<close>\<close>
  "not_newline c = (c \<noteq> CHR 0x0A)"

definition in_A_D :: "char \<Rightarrow> bool" where
  \<comment> \<open>\<open>[A-D]\<close>\<close>
  "in_A_D c = (c \<in> set ''ABCD'')"

definition in_A_D_ci :: "char \<Rightarrow> bool" where
  \<comment> \<open>\<open>[A-D]\<close> under \<open>re.IGNORECASE\<close>\<close>
  "in_A_D_ci c = (lower_char c \<in> set ''abcd'')"

definition is_separator :: "char \<Rightarrow> bool" where
  \<comment> \<open>\<open>[\.\):\s]\<close>\<close>
  "is_separator c = (c = CHR ''.'' \<or> c = CHR '')'' \<or> c = CHR '':'' \<or> is_space c)"

fun one :: "(char \<Rightarrow> bool) \<Rightarrow> string \<Rightarrow> (char \<times> string) option" where
  \<comment> \<open>one character of a class: the character and the text after it\<close>
  "one cl [] = None"
| "one cl (c # cs) = (if cl c then Some (c, cs) else None)"

definition choice_name_stop :: "string \<Rightarrow> bool" where
  \<comment> \<open>\<open>(?:\n|REASONING|$)\<close>\<close>
  "choice_name_stop s =
     (is_prefix [CHR 0x0A] s \<or> lit_ci ''REASONING'' (\<lambda>r. Some ()) s \<noteq> None \<or> eol s)"

definition m_choice_name :: "string \<Rightarrow> string option" where
  \<comment> \<open>\<open>CHOICE:\s*(.+?)(?:\n|REASONING|$)\<close>, \<open>re.IGNORECASE\<close>; yields group 1\<close>
  "m_choice_name = lit_ci ''CHOICE:'' (star_greedy is_space (plus_lazy not_newline choice_name_stop))"

definition m_reasoning :: "string \<Rightarrow> string option" where
  \<comment> \<open>\<open>REASONING:\s*(.+?)$\<close>, \<open>re.IGNORECASE | re.DOTALL\<close>; yields group 1\<close>
  "m_reasoning = lit_ci ''REASONING:'' (star_greedy is_space (plus_lazy any_char eol))"

definition m_choice_label :: "string \<Rightarrow> string option" where
  \<comment> \<open>\<open>CHOICE:\s*([A-D])\<close>, \<open>re.IGNORECASE\<close>; yields group 1\<close>
  "m_choice_label =
     lit_ci ''CHOICE:'' (star_greedy is_space (\<lambda>s. map_option (\<lambda>(c, r). [c]) (one in_A_D_ci s)))"

definition m_line_label :: "string \<Rightarrow> string option" where
  \<comment> \<open>\<open>^([A-D])[\.\):\s]\<close> after the \<open>^\<close>; yields group 1\<close>
  "m_line_label s =
     (case one in_A_D s of
        None \<Rightarrow> None
      | Some (c, r) \<Rightarrow> map_option (\<lambda>_. [c]) (one is_separator r))"

definition m_rate :: "string \<Rightarrow> (string \<times> string) option" where
  \<comment> \<open>\<open>Rate:\s*(\d)\<close>, \<open>re.IGNORECASE\<close>; yields group 1 and the text after the match\<close>
  "m_rate = lit_ci ''Rate:'' (star_greedy is_space (\<lambda>s. map_option (\<lambda>(c, r). ([c], r)) (one is_digit s)))"

fun star_lazy :: "(string \<Rightarrow> 'a option) \<Rightarrow> string \<Rightarrow> 'a option" where
  \<comment> \<open>\<open>.*?\<close> under \<open>re.DOTALL\<close>: try the continuation here first, then one character on\<close>
  "star_lazy k [] = k []"
| "star_lazy k (c # cs) = (case k (c # cs) of Some r \<Rightarrow> Some r | None \<Rightarrow> star_lazy k cs)"

definition question_stop :: "string \<Rightarrow> bool" where
  \<comment> \<open>\<open>(?=\n\d+\.|$)\<close>\<close>
  "question_stop s =
     (lit [CHR 0x0A]
        (\<lambda>r. case one is_digit r of
               None \<Rightarrow> None
             | Some (d, r') \<Rightarrow> star_greedy is_digit (lit ''.'' (\<lambda>t. Some ())) r') s \<noteq> None
      \<or> eol s)"

definition m_question :: "string \<Rightarrow> string \<Rightarrow> string \<Rightarrow> string option" where
  \<comment> \<open>\<open>N\..*?Marker:\s*(.+?)(?=\n\d+\.|$)\<close>, \<open>re.DOTALL | re.IGNORECASE\<close>, where
      \<open>num\<close> is \<open>N.\<close> and \<open>marker\<close> is \<open>Explain:\<close> or \<open>Answer:\<close>; yields group 1\<close>
  "m_question num marker =
     lit_ci num (star_lazy (lit_ci marker (star_greedy is_space (plus_lazy any_char question_stop))))"

function re_findall :: "(string \<Rightarrow> ('a \<times> string) option) \<Rightarrow> string \<Rightarrow> 'a list" where
  \<comment> \<open>\<open>re.findall\<close>: the matches from left to right, none overlapping; after an
      empty match, and where there is no match, the scan moves on by one character\<close>
  "re_findall m s =
     (case m s of
        Some (g, r) \<Rightarrow>
          (if length r < length s then g # re_findall m r
           else (case s of [] \<Rightarrow> [g] | c # cs \<Rightarrow> g # re_findall m cs))
      | None \<Rightarrow> (case s of [] \<Rightarrow> [] | c # cs \<Rightarrow> re_findall m cs))"
  by pat_completeness auto
termination
  by (relation "measure (\<lambda>(m, s). length s)") auto

section \<open>Fallible primitives\<close>

definition bind :: "exn + 'a \<Rightarrow> ('a \<Rightarrow> exn + 'b) \<Rightarrow> exn + 'b" where
  \<comment> \<open>sequencing: an exception ends the computation\<close>
  "bind x f = (case x of Inl e \<Rightarrow> Inl e | Inr v \<Rightarrow> f v)"

definition quoted :: "string \<Rightarrow> string" where
  \<comment> \<open>a name between single quotes, as messages print it\<close>
  "quoted s = [CHR 0x27] @ s @ [CHR 0x27]"

definition group1 :: "string option \<Rightarrow> exn + string" where
  \<comment> \<open>\<open>match.group(1)\<close>, where \<open>match\<close> may be \<open>None\<close>\<close>
  "group1 m =
     (case m of
        None \<Rightarrow> Inl (AttributeError (quoted ''NoneType'' @ '' object has no attribute '' @ quoted ''group''))
      | Some g \<Rightarrow> Inr g)"

definition py_index :: "'a list \<Rightarrow> nat \<Rightarrow> exn + 'a" where
  \<comment> \<open>\<open>xs[i]\<close> for a literal index \<open>i \<ge> 0\<close>\<close>
  "py_index xs i = (if i < length xs then Inr (xs ! i) else Inl (IndexError ''list index out of range''))"

definition digit_value :: "char \<Rightarrow> int" where
  "digit_value c = int (of_char c) - 48"

definition py_int :: "string \<Rightarrow> exn + int" where
  \<comment> \<open>\<open>int(s)\<close> on the strings it is applied to here, unsigned decimal numerals;
      anything else is reported as \<open>ValueError\<close>\<close>
  "py_int s =
     (if s \<noteq> [] \<and> list_all is_digit s
      then Inr (foldl (\<lambda>a c. 10 * a + digit_value c) 0 s)
      else Inl (ValueError (''invalid literal for int() with base 10: '' @ py_repr s)))"

section \<open>The extractors of \<open>utils.py\<close>\<close>

text \<open>
  Each extractor starts with \<open>if not response or not isinstance(response, str)\<close>, which
  takes the truth value of the response first, whatever its class; an exception of that
  step leaves the extractor. Past the guard the response is a non-empty \<open>str\<close>.
\<close>

definition roster :: "string list" where
  "roster = [''Alex Chen'', ''Jordan Williams'', ''Sam Rivera'']"

fun match_roster :: "string list \<Rightarrow> string \<Rightarrow> string" where
  \<comment> \<open>the \<open>for char_name in [...]\<close> loop with its \<open>break\<close>\<close>
  "match_roster [] choice = choice"
| "match_roster (char_name # names) choice =
     (if contains (lower char_name) (lower choice) then char_name
      else match_roster names choice)"

definition parse_character_selection :: "pyval \<Rightarrow> exn + (string \<times> string)" where
  "parse_character_selection response =
     bind (truthy response) (\<lambda>nonempty.
       case response of
         PyStr s \<Rightarrow>
           if \<not> nonempty
           then Inr (''Alex Chen'', ''Default selection due to invalid response'')
           else
             let choice_match = re_search m_choice_name s;
                 reasoning_match = re_search m_reasoning s
             in bind (if choice_match \<noteq> None
                      then bind (group1 choice_match) (\<lambda>g. Inr (match_roster roster (strip g)))
                      else Inr ''Alex Chen'')
                 (\<lambda>choice.
                bind (if reasoning_match \<noteq> None
                      then bind (group1 reasoning_match) (\<lambda>g. Inr (strip g))
                      else Inr ''Selected based on background'')
                 (\<lambda>reasoning. Inr (choice, reasoning)))
       | _ \<Rightarrow> Inr (''Alex Chen'', ''Default selection due to invalid response''))"

definition parse_decision_response :: "pyval \<Rightarrow> exn + (string \<times> string)" where
  "parse_decision_response response =
     bind (truthy response) (\<lambda>nonempty.
       case response of
         PyStr s \<Rightarrow>
           if \<not> nonempty
           then Inr (''A'', ''Default choice due to invalid response'')
           else
             let choice_match = re_search m_choice_label s;
                 reasoning_match = re_search m_reasoning s
             in bind (if choice_match \<noteq> None
                      then bind (group1 choice_match) (\<lambda>g. Inr (upper g))
                      else
                        let fallback = re_search_bol m_line_label True s
                        in if fallback \<noteq> None
                           then bind (group1 fallback) (\<lambda>g. Inr (upper g))
                           else Inr ''A'')
                 (\<lambda>choice.
                bind (if reasoning_match \<noteq> None
                      then bind (group1 reasoning_match) (\<lambda>g. Inr (strip g))
                      else Inr ''Default reasoning'')
                 (\<lambda>reasoning. Inr (choice, reasoning)))
       | _ \<Rightarrow> Inr (''A'', ''Default choice due to invalid response''))"

record feedback_dict =
  realistic :: int
  realistic_explain :: string
  felt_safe :: int
  felt_safe_explain :: string
  helpful_feedback :: int
  helpful_feedback_explain :: string
  would_recommend :: int
  would_recommend_explain :: string
  confidence :: int
  confidence_explain :: string
  most_valuable_scenario :: string
  likely_strategy :: string
  what_worked :: string
  improvements :: string
  cultural_relevance :: string
  raw_response :: string

definition default_feedback :: "string \<Rightarrow> feedback_dict" where
  \<comment> \<open>the dictionary literal; \<open>raw\<close> is the value of \<open>str(response) if response else ""\<close>\<close>
  "default_feedback raw =
     \<lparr> realistic = 3, realistic_explain = [],
       felt_safe = 3, felt_safe_explain = [],
       helpful_feedback = 3, helpful_feedback_explain = [],
       would_recommend = 3, would_recommend_explain = [],
       confidence = 3, confidence_explain = [],
       most_valuable_scenario = [], likely_strategy = [], what_worked = [],
       improvements = [], cultural_relevance = [],
       raw_response = raw \<rparr>"

definition set_ratings :: "string list \<Rightarrow> feedback_dict \<Rightarrow> exn + feedback_dict" where
  \<comment> \<open>the \<open>if len(ratings) >= 5\<close> block\<close>
  "set_ratings ratings fb =
     (if length ratings \<ge> 5
      then bind (bind (py_index ratings 0) py_int) (\<lambda>r0.
           bind (bind (py_index ratings 1) py_int) (\<lambda>r1.
           bind (bind (py_index ratings 2) py_int) (\<lambda>r2.
           bind (bind (py_index ratings 3) py_int) (\<lambda>r3.
           bind (bind (py_index ratings 4) py_int) (\<lambda>r4.
             Inr (fb\<lparr>realistic := r0, felt_safe := r1, helpful_feedback := r2,
                     would_recommend := r3, confidence := r4\<rparr>))))))
      else Inr fb)"

definition set_answer ::
  "string \<Rightarrow> string \<Rightarrow> string \<Rightarrow> (string \<Rightarrow> feedback_dict \<Rightarrow> feedback_dict) \<Rightarrow> feedback_dict \<Rightarrow> exn + feedback_dict" where
  \<comment> \<open>one \<open>re.search\<close> for a question, and the assignment under \<open>if match\<close>\<close>
  "set_answer num marker text upd fb =
     (let found = re_search (m_question num marker) text
      in if found \<noteq> None then bind (group1 found) (\<lambda>g. Inr (upd (strip g) fb)) else Inr fb)"

definition set_answers :: "string \<Rightarrow> feedback_dict \<Rightarrow> exn + feedback_dict" where
  \<comment> \<open>the ten searches, questions 1 to 10, in the order of the source\<close>
  "set_answers text fb =
     bind (set_answer ''1.'' ''Explain:'' text (\<lambda>v f. f\<lparr>realistic_explain := v\<rparr>) fb) (\<lambda>fb.
     bind (set_answer ''2.'' ''Explain:'' text (\<lambda>v f. f\<lparr>felt_safe_explain := v\<rparr>) fb) (\<lambda>fb.
     bind (set_answer ''3.'' ''Explain:'' text (\<lambda>v f. f\<lparr>helpful_feedback_explain := v\<rparr>) fb) (\<lambda>fb.
     bind (set_answer ''4.'' ''Explain:'' text (\<lambda>v f. f\<lparr>would_recommend_explain := v\<rparr>) fb) (\<lambda>fb.
     bind (set_answer ''5.'' ''Explain:'' text (\<lambda>v f. f\<lparr>confidence_explain := v\<rparr>) fb) (\<lambda>fb.
     bind (set_answer ''6.'' ''Answer:'' text (\<lambda>v f. f\<lparr>most_valuable_scenario := v\<rparr>) fb) (\<lambda>fb.
     bind (set_answer ''7.'' ''Answer:'' text (\<lambda>v f. f\<lparr>likely_strategy := v\<rparr>) fb) (\<lambda>fb.
     bind (set_answer ''8.'' ''Answer:'' text (\<lambda>v f. f\<lparr>what_worked := v\<rparr>) fb) (\<lambda>fb.
     bind (set_answer ''9.'' ''Answer:'' text (\<lambda>v f. f\<lparr>improvements := v\<rparr>) fb) (\<lambda>fb.
     bind (set_answer ''10.'' ''Answer:'' text (\<lambda>v f. f\<lparr>cultural_relevance := v\<rparr>) fb) (\<lambda>fb.
       Inr fb))))))))))"

definition parse_feedback_response :: "pyval \<Rightarrow> exn + feedback_dict" where
  \<comment> \<open>the dictionary literal evaluates \<open>str(response) if response else ""\<close> before the
      guard is reached\<close>
  "parse_feedback_response response =
     bind (truthy response) (\<lambda>nonempty.
     bind (if nonempty then py_str response else Inr []) (\<lambda>raw.
     let fb = default_feedback raw
     in bind (truthy response) (\<lambda>nonempty.
          case response of
            PyStr text \<Rightarrow>
              if \<not> nonempty then Inr fb
              else
                let ratings = re_findall m_rate text
                in bind (set_ratings ratings fb) (set_answers text)
          | _ \<Rightarrow> Inr fb)))"

definition ratings :: "feedback_dict \<Rightarrow> int list" where
  \<comment> \<open>the five ratings of a survey dictionary, in the order of the questions\<close>
  "ratings fb =
     [realistic fb, felt_safe fb, helpful_feedback fb, would_recommend fb, confidence fb]"

definition same_ratings :: "feedback_dict \<Rightarrow> feedback_dict \<Rightarrow> bool" where
  \<comment> \<open>two survey dictionaries agree on the five ratings\<close>
  "same_ratings a b = (ratings b = ratings a)"

abbreviation answer :: "string \<Rightarrow> string \<Rightarrow> string \<Rightarrow> string" where
  \<comment> \<open>the span found for a question, trimmed, or the empty text\<close>
  "answer num marker text \<equiv>
     (case re_search (m_question num marker) text of None \<Rightarrow> [] | Some g \<Rightarrow> strip g)"

section \<open>Configuration (\<open>config.py\<close>)\<close>




section \<open>The scenario catalogue and the records of a run\<close>

text \<open>
  The catalogue is the content of \<open>scenarios_map.json\<close>. A JSON object with a fixed set
  of keys is a record; the \<open>options\<close> object of a decision point, whose keys are the
  option labels, is an association list in the order of the file (its keys are distinct,
  as in a \<open>dict\<close>); the \<open>skills\<close> of an option are a JSON array, a list.
\<close>

record option_dict =
  opt_text :: string
  opt_skills :: "string list"
  opt_feedback :: string

record decision_point =
  dp_id :: string
  dp_prompt :: string
  dp_options :: "(string \<times> option_dict) list"

record scenario =
  sc_id :: string
  sc_name :: string
  sc_context :: string
  sc_decision_points :: "decision_point list"

record decision_result =
  decision_id :: string
  choice :: string
  choice_text :: string
  reasoning :: string
  feedback_received :: string




section \<open>The external agent and the random generator\<close>

text \<open>
  \<open>TinyPerson.listen_and_act\<close> is external: it returns a list of actions or raises. A
  persona carries the outcome of each of its calls, by call number (the prompts are
  determined by the run, so this loses no behaviour). An action is a dictionary
  \<open>{"action": {"type": ..., "content": ...}}\<close> with two texts, or an object that is no
  dictionary.
\<close>

datatype action = Action string string | NotADict

record persona =
  name :: string
  nationality :: string
  professional_interests :: string
  replies :: "nat \<Rightarrow> exn + action list"


text \<open>
  The module \<open>random\<close> is a generator seeded once; it is modelled by the stream of its
  raw outputs still to come. \<open>randbelow n\<close> yields a number below \<open>n\<close>.
\<close>

type_synonym generator = "nat \<Rightarrow> nat"

definition randbelow :: "nat \<Rightarrow> generator \<Rightarrow> nat \<times> generator" where
  "randbelow n g = (g 0 mod n, \<lambda>i. g (Suc i))"

definition randint :: "int \<Rightarrow> int \<Rightarrow> generator \<Rightarrow> int \<times> generator" where
  \<comment> \<open>\<open>random.randint(a, b)\<close>, both ends included\<close>
  "randint a b g = (case randbelow (nat (b - a + 1)) g of (k, g') \<Rightarrow> (a + int k, g'))"

definition random_choice :: "'a list \<Rightarrow> generator \<Rightarrow> (exn + 'a) \<times> generator" where
  \<comment> \<open>\<open>random.choice(seq)\<close>; an empty sequence raises \<open>IndexError\<close>\<close>
  "random_choice xs g =
     (if xs = [] then (Inl (IndexError ''Cannot choose from an empty sequence''), g)
      else case randbelow (length xs) g of (k, g') \<Rightarrow> (Inr (xs ! k), g'))"

section \<open>The simulator (\<open>simulate_mvp.py\<close>)\<close>





definition validate_choice ::
  "decision_point \<Rightarrow> string \<Rightarrow> string \<Rightarrow> generator \<Rightarrow> (exn + decision_result) \<times> generator" where
  \<comment> \<open>\<open>simulate_decision_point\<close> from \<open># Validate choice\<close> on: the extracted label and
      reasoning, checked against the options of the decision point\<close>
  "validate_choice dp label reason g =
     (case (if label \<notin> set (map fst (dp_options dp))
            then (case random_choice (map fst (dp_options dp)) g of
                    (Inl e, g') \<Rightarrow> (Inl e, g')
                  | (Inr l, g') \<Rightarrow> (Inr (l, ''Default choice due to parsing error''), g'))
            else (Inr (label, reason), g)) of
        (Inl e, g') \<Rightarrow> (Inl e, g')
      | (Inr (label', reason'), g') \<Rightarrow>
          (case map_of (dp_options dp) label' of
             None \<Rightarrow> (Inl (KeyError label'), g')
           | Some opt \<Rightarrow>
               (Inr \<lparr>decision_id = dp_id dp, choice = label', choice_text = opt_text opt,
                     reasoning = reason', feedback_received = opt_feedback opt\<rparr>, g')))"



















section \<open>A small catalogue and its participants\<close>

text \<open>
  The catalogue of the specification's end-to-end scenario: one scenario with one decision
  point whose option A grants \<open>warning_signs\<close> and whose option B grants nothing; and a
  second catalogue whose scenario has that decision point twice.
\<close>

definition option_A :: option_dict where
  "option_A = \<lparr>opt_text = ''Check in with her'', opt_skills = [''warning_signs''],
                opt_feedback = ''You noticed the signs.''\<rparr>"

definition option_B :: option_dict where
  "option_B = \<lparr>opt_text = ''Walk away'', opt_skills = [], opt_feedback = ''Consider the risk.''\<rparr>"

definition dp_AB :: decision_point where
  "dp_AB = \<lparr>dp_id = ''d1'', dp_prompt = ''What do you do?'',
             dp_options = [(''A'', option_A), (''B'', option_B)]\<rparr>"

definition dp_BC :: decision_point where
  \<comment> \<open>a decision point that has no option A\<close>
  "dp_BC = \<lparr>dp_id = ''d2'', dp_prompt = ''And then?'',
             dp_options = [(''B'', option_B), (''C'', option_A)]\<rparr>"


definition two_decisions :: "scenario list" where
  "two_decisions =
     [\<lparr>sc_id = ''s1'', sc_name = ''Party Observation'', sc_context = ''At a party.'',
       sc_decision_points = [dp_AB, dp_AB]\<rparr>]"

definition talk :: "string \<Rightarrow> exn + action list" where
  \<comment> \<open>the agent says one text\<close>
  "talk s = Inr [Action ''TALK'' s]"

definition choice_A :: string where
  "choice_A = ''CHOICE: A'' @ [CHR 0x0A] @ ''REASONING: test''"


definition failing :: persona where
  \<comment> \<open>the agent fails at its third call\<close>
  "failing = \<lparr>name = ''Bao'', nationality = ''Vietnamese'', professional_interests = ''art'',
               replies = (\<lambda>t. if t = 2 then Inl (External True ''connection lost'') else talk choice_A)\<rparr>"

definition interrupted :: persona where
  \<comment> \<open>the third call ends in \<open>KeyboardInterrupt\<close>\<close>
  "interrupted = \<lparr>name = ''Caro'', nationality = ''Chilean'', professional_interests = ''music'',
                   replies = (\<lambda>t. if t = 2 then Inl (External False []) else talk choice_A)\<rparr>"

definition zeros :: generator where
  "zeros = (\<lambda>i. 0)"

definition counting :: generator where
  "counting = (\<lambda>i. 300 + 7 * i)"

section \<open>The survey extractor\<close>

lemma lit_ci_Some: "lit_ci p k s = Some x \<Longrightarrow> \<exists>r. k r = Some x"
  by (induction p k s rule: lit_ci.induct) (auto split: if_splits)

lemma star_greedy_Some: "star_greedy cl k s = Some x \<Longrightarrow> \<exists>r. k r = Some x"
  by (induction cl k s rule: star_greedy.induct) (auto split: if_splits option.splits)

lemma m_rate_digit: "m_rate s = Some (g, r) \<Longrightarrow> \<exists>c. g = [c] \<and> is_digit c"
proof -
  assume "m_rate s = Some (g, r)"
  then obtain t where "map_option (\<lambda>(c, r). ([c], r)) (one is_digit t) = Some (g, r)"
    unfolding m_rate_def by (blast dest: lit_ci_Some star_greedy_Some)
  then show ?thesis
    by (cases t) (auto split: if_splits)
qed

lemma re_findall_m_rate_digits:
  "g \<in> set (re_findall m_rate s) \<Longrightarrow> \<exists>c. g = [c] \<and> is_digit c"
proof (induction m_rate s rule: re_findall.induct)
  case (1 s)
  show ?case
  proof (cases "m_rate s")
    case None
    with 1 show ?thesis by (cases s) (auto simp: re_findall.simps[of m_rate "[]"] re_findall.simps[of m_rate "_ # _"])
  next
    case (Some a)
    obtain g0 r where a: "a = (g0, r)" by (cases a)
    from Some a have d: "\<exists>c. g0 = [c] \<and> is_digit c" by (auto dest: m_rate_digit)
    show ?thesis
    proof (cases "length r < length s")
      case True
      with 1 Some a d show ?thesis
        by (subst (asm) (3) re_findall.simps) auto
    next
      case False
      with 1 Some a d show ?thesis
        by (cases s) (auto simp: re_findall.simps[of m_rate "[]"] re_findall.simps[of m_rate "_ # _"])
    qed
  qed
qed

lemma py_int_digit: "is_digit c \<Longrightarrow> py_int [c] = Inr (digit_value c)"
  by (simp add: py_int_def)

lemma set_ratings_few: "length rs < 5 \<Longrightarrow> set_ratings rs fb = Inr fb"
  by (simp add: set_ratings_def)

lemma set_ratings_five:
  assumes len: "5 \<le> length rs"
    and dig: "\<forall>g \<in> set rs. \<exists>c. g = [c] \<and> is_digit c"
  shows "\<exists>r0 r1 r2 r3 r4.
           map py_int (take 5 rs) = [Inr r0, Inr r1, Inr r2, Inr r3, Inr r4] \<and>
           set_ratings rs fb =
             Inr (fb\<lparr>realistic := r0, felt_safe := r1, helpful_feedback := r2,
                     would_recommend := r3, confidence := r4\<rparr>)"
proof -
  obtain a b c d e rest where rs: "rs = a # b # c # d # e # rest"
    using len by (auto simp: eval_nat_numeral Suc_le_length_iff)
  have "\<exists>v. py_int a = Inr v" "\<exists>v. py_int b = Inr v" "\<exists>v. py_int c = Inr v"
       "\<exists>v. py_int d = Inr v" "\<exists>v. py_int e = Inr v"
    using dig rs by (auto simp: py_int_digit)
  then obtain r0 r1 r2 r3 r4 where
    "py_int a = Inr r0" "py_int b = Inr r1" "py_int c = Inr r2" "py_int d = Inr r3" "py_int e = Inr r4"
    by blast
  then show ?thesis
    by (simp add: rs set_ratings_def bind_def py_index_def)
qed

lemma set_answer_default:
  "upd [] fb = fb \<Longrightarrow>
   set_answer num marker s upd fb = Inr (upd (answer num marker s) fb)"
  by (auto simp: set_answer_def Let_def bind_def group1_def split: option.splits)

lemma set_answers_record:
  "set_answers s
     \<lparr> realistic = r0, realistic_explain = [],
       felt_safe = r1, felt_safe_explain = [],
       helpful_feedback = r2, helpful_feedback_explain = [],
       would_recommend = r3, would_recommend_explain = [],
       confidence = r4, confidence_explain = [],
       most_valuable_scenario = [], likely_strategy = [], what_worked = [],
       improvements = [], cultural_relevance = [],
       raw_response = raw \<rparr> =
   Inr
     \<lparr> realistic = r0, realistic_explain = answer ''1.'' ''Explain:'' s,
       felt_safe = r1, felt_safe_explain = answer ''2.'' ''Explain:'' s,
       helpful_feedback = r2, helpful_feedback_explain = answer ''3.'' ''Explain:'' s,
       would_recommend = r3, would_recommend_explain = answer ''4.'' ''Explain:'' s,
       confidence = r4, confidence_explain = answer ''5.'' ''Explain:'' s,
       most_valuable_scenario = answer ''6.'' ''Answer:'' s,
       likely_strategy = answer ''7.'' ''Answer:'' s,
       what_worked = answer ''8.'' ''Answer:'' s,
       improvements = answer ''9.'' ''Answer:'' s,
       cultural_relevance = answer ''10.'' ''Answer:'' s,
       raw_response = raw \<rparr>"
  by (simp add: set_answers_def bind_def set_answer_default)

lemma parse_feedback_empty:
  "parse_feedback_response (PyStr []) = Inr (default_feedback [])"
  by (simp add: parse_feedback_response_def bind_def)

lemma parse_feedback_text:
  assumes "s \<noteq> []"
  shows "\<exists>fb. parse_feedback_response (PyStr s) = Inr fb \<and>
           (if length (re_findall m_rate s) < 5
            then ratings fb = [3, 3, 3, 3, 3]
            else map py_int (take 5 (re_findall m_rate s)) = map Inr (ratings fb)) \<and>
           realistic_explain fb = answer ''1.'' ''Explain:'' s \<and>
           felt_safe_explain fb = answer ''2.'' ''Explain:'' s \<and>
           helpful_feedback_explain fb = answer ''3.'' ''Explain:'' s \<and>
           would_recommend_explain fb = answer ''4.'' ''Explain:'' s \<and>
           confidence_explain fb = answer ''5.'' ''Explain:'' s \<and>
           most_valuable_scenario fb = answer ''6.'' ''Answer:'' s \<and>
           likely_strategy fb = answer ''7.'' ''Answer:'' s \<and>
           what_worked fb = answer ''8.'' ''Answer:'' s \<and>
           improvements fb = answer ''9.'' ''Answer:'' s \<and>
           cultural_relevance fb = answer ''10.'' ''Answer:'' s \<and>
           raw_response fb = s"
proof -
  let ?rs = "re_findall m_rate s"
  have unfold: "parse_feedback_response (PyStr s) =
                  bind (set_ratings ?rs (default_feedback s)) (set_answers s)"
    using assms by (simp add: parse_feedback_response_def bind_def Let_def)
  show ?thesis
  proof (cases "length ?rs < 5")
    case True
    have "set_ratings ?rs (default_feedback s) = Inr (default_feedback s)"
      using True by (rule set_ratings_few)
    then have "parse_feedback_response (PyStr s) = set_answers s (default_feedback s)"
      unfolding unfold by (simp add: bind_def)
    then have eq: "parse_feedback_response (PyStr s) = Inr
               \<lparr> realistic = 3, realistic_explain = answer ''1.'' ''Explain:'' s,
                 felt_safe = 3, felt_safe_explain = answer ''2.'' ''Explain:'' s,
                 helpful_feedback = 3, helpful_feedback_explain = answer ''3.'' ''Explain:'' s,
                 would_recommend = 3, would_recommend_explain = answer ''4.'' ''Explain:'' s,
                 confidence = 3, confidence_explain = answer ''5.'' ''Explain:'' s,
                 most_valuable_scenario = answer ''6.'' ''Answer:'' s,
                 likely_strategy = answer ''7.'' ''Answer:'' s,
                 what_worked = answer ''8.'' ''Answer:'' s,
                 improvements = answer ''9.'' ''Answer:'' s,
                 cultural_relevance = answer ''10.'' ''Answer:'' s,
                 raw_response = s \<rparr>"
      unfolding default_feedback_def set_answers_record .
    show ?thesis
      unfolding eq using True by (simp add: ratings_def)
  next
    case False
    then have five: "5 \<le> length ?rs" by simp
    have dig: "\<forall>g \<in> set ?rs. \<exists>c. g = [c] \<and> is_digit c"
      by (blast dest: re_findall_m_rate_digits)
    from set_ratings_five[OF five dig, of "default_feedback s"] obtain r0 r1 r2 r3 r4 where
      ints: "map py_int (take 5 ?rs) = [Inr r0, Inr r1, Inr r2, Inr r3, Inr r4]" and
      sr: "set_ratings ?rs (default_feedback s) =
             Inr (default_feedback s\<lparr>realistic := r0, felt_safe := r1, helpful_feedback := r2,
                     would_recommend := r3, confidence := r4\<rparr>)"
      by (elim exE conjE)
    have lit: "default_feedback s\<lparr>realistic := r0, felt_safe := r1, helpful_feedback := r2,
                     would_recommend := r3, confidence := r4\<rparr> =
               \<lparr> realistic = r0, realistic_explain = [],
                 felt_safe = r1, felt_safe_explain = [],
                 helpful_feedback = r2, helpful_feedback_explain = [],
                 would_recommend = r3, would_recommend_explain = [],
                 confidence = r4, confidence_explain = [],
                 most_valuable_scenario = [], likely_strategy = [], what_worked = [],
                 improvements = [], cultural_relevance = [],
                 raw_response = s \<rparr>"
      by (simp add: default_feedback_def)
    have eq: "parse_feedback_response (PyStr s) = Inr
               \<lparr> realistic = r0, realistic_explain = answer ''1.'' ''Explain:'' s,
                 felt_safe = r1, felt_safe_explain = answer ''2.'' ''Explain:'' s,
                 helpful_feedback = r2, helpful_feedback_explain = answer ''3.'' ''Explain:'' s,
                 would_recommend = r3, would_recommend_explain = answer ''4.'' ''Explain:'' s,
                 confidence = r4, confidence_explain = answer ''5.'' ''Explain:'' s,
                 most_valuable_scenario = answer ''6.'' ''Answer:'' s,
                 likely_strategy = answer ''7.'' ''Answer:'' s,
                 what_worked = answer ''8.'' ''Answer:'' s,
                 improvements = answer ''9.'' ''Answer:'' s,
                 cultural_relevance = answer ''10.'' ''Answer:'' s,
                 raw_response = s \<rparr>"
      unfolding unfold sr lit by (simp only: bind_def sum.case set_answers_record)
    show ?thesis
      unfolding eq using False ints by (simp add: ratings_def)
  qed
qed

text \<open>
  Claim C3. Survey extraction is all-or-nothing on the ratings: for every text the
  extractor returns a survey dictionary; when \<open>Rate:\<close> followed by a digit is found
  fewer than five times, the five ratings are all 3; when it is found five times or more,
  the first five digits found are the ratings, in the order realistic, felt_safe,
  helpful_feedback, would_recommend, confidence.
\<close>

theorem survey_ratings_all_or_nothing:
  "\<exists>fb. parse_feedback_response (PyStr text) = Inr fb \<and>
     (if length (re_findall m_rate text) < 5
      then ratings fb = [3, 3, 3, 3, 3]
      else map py_int (take 5 (re_findall m_rate text)) = map Inr (ratings fb))"
proof (cases "text = []")
  case True
  then show ?thesis
    by (simp add: parse_feedback_empty re_findall.simps[of _ "[]"] m_rate_def
        ratings_def default_feedback_def)
next
  case False
  from parse_feedback_text[OF False] show ?thesis
    by blast
qed

text \<open>Six matches: the first five are the ratings, in order.\<close>

theorem survey_ratings_all_or_nothing_witness:
  "\<exists>fb. parse_feedback_response (PyStr ''Rate: 4 rate:5 Rate: 1 RATE: 2 Rate: 5 Rate: 1'') = Inr fb \<and>
        ratings fb = [4, 5, 1, 2, 5]"
proof -
  have rs: "re_findall m_rate ''Rate: 4 rate:5 Rate: 1 RATE: 2 Rate: 5 Rate: 1'' =
              [''4'', ''5'', ''1'', ''2'', ''5'', ''1'']"
    by code_simp
  have ints: "map py_int [''4'', ''5'', ''1'', ''2'', ''5''] = map Inr [4, 5, 1, 2, 5]"
    by code_simp
  from survey_ratings_all_or_nothing[of "''Rate: 4 rate:5 Rate: 1 RATE: 2 Rate: 5 Rate: 1''"]
  obtain fb where
    "parse_feedback_response (PyStr ''Rate: 4 rate:5 Rate: 1 RATE: 2 Rate: 5 Rate: 1'') = Inr fb"
    "map Inr (ratings fb) = (map Inr [4, 5, 1, 2, 5] :: (exn + int) list)"
    unfolding rs using ints by auto
  moreover from this(2) have "ratings fb = [4, 5, 1, 2, 5]"
    by (auto simp: ratings_def)
  ultimately show ?thesis by blast
qed

text \<open>
  Claim C7. The claim that every rating lies between 1 and 5 does not hold of the code:
  the pattern takes any digit, and no range check follows. Five matches with the digits
  9, 0, 7, 8, 6 give these ratings.
\<close>

theorem survey_rating_outside_1_to_5:
  "map_sum id ratings (parse_feedback_response (PyStr ''Rate: 9 Rate: 0 Rate: 7 Rate: 8 Rate: 6''))
     = Inr [9, 0, 7, 8, 6]"
  by code_simp

text \<open>The first rating is 9 and the second is 0, both outside 1..5.\<close>

theorem survey_rating_outside_1_to_5_witness:
  "\<exists>fb. parse_feedback_response (PyStr ''Rate: 9 Rate: 0 Rate: 7 Rate: 8 Rate: 6'') = Inr fb \<and>
        realistic fb = 9 \<and> felt_safe fb = 0"
  using survey_rating_outside_1_to_5
  by (cases "parse_feedback_response (PyStr ''Rate: 9 Rate: 0 Rate: 7 Rate: 8 Rate: 6'')")
     (auto simp: ratings_def)

section \<open>The three extractors on any input\<close>

lemma parse_character_selection_text:
  "s \<noteq> [] \<Longrightarrow>
   parse_character_selection (PyStr s) =
     Inr (case re_search m_choice_name s of
            None \<Rightarrow> ''Alex Chen'' | Some g \<Rightarrow> match_roster roster (strip g),
          case re_search m_reasoning s of
            None \<Rightarrow> ''Selected based on background'' | Some g \<Rightarrow> strip g)"
  by (simp add: parse_character_selection_def bind_def group1_def Let_def split: option.splits)

lemma parse_decision_response_text:
  "s \<noteq> [] \<Longrightarrow>
   parse_decision_response (PyStr s) =
     Inr (case re_search m_choice_label s of
            Some g \<Rightarrow> upper g
          | None \<Rightarrow> (case re_search_bol m_line_label True s of
                       Some g \<Rightarrow> upper g | None \<Rightarrow> ''A''),
          case re_search m_reasoning s of
            None \<Rightarrow> ''Default reasoning'' | Some g \<Rightarrow> strip g)"
  by (simp add: parse_decision_response_def bind_def group1_def Let_def split: option.splits)




section \<open>The decision resolver\<close>

text \<open>
  Claim C1. Whatever label the extractor gave, the validation in
  \<open>simulate_decision_point\<close> returns a decision whose label is an option of the decision
  point, provided the decision point has an option. A label that is an option is kept, with
  its reasoning; any other label is replaced by the option that \<open>random.choice\<close> draws,
  and the reasoning by \<open>"Default choice due to parsing error"\<close>. The text and the feedback
  of the decision are those of the option returned.
\<close>

theorem resolver_returns_legal_label:
  assumes "dp_options dp \<noteq> []"
  shows "\<exists>d opt. fst (validate_choice dp label reason g) = Inr d \<and>
           choice d \<in> set (map fst (dp_options dp)) \<and>
           (if label \<in> set (map fst (dp_options dp))
            then choice d = label \<and> reasoning d = reason
            else choice d = map fst (dp_options dp) ! (g 0 mod length (dp_options dp)) \<and>
                 reasoning d = ''Default choice due to parsing error'') \<and>
           map_of (dp_options dp) (choice d) = Some opt \<and>
           decision_id d = dp_id dp \<and> choice_text d = opt_text opt \<and>
           feedback_received d = opt_feedback opt"
proof (cases "label \<in> set (map fst (dp_options dp))")
  case True
  then obtain opt where "map_of (dp_options dp) label = Some opt"
    by (cases "map_of (dp_options dp) label") (auto simp: map_of_eq_None_iff)
  with True show ?thesis
    by (simp add: validate_choice_def)
next
  case False
  let ?keys = "map fst (dp_options dp)"
  let ?k = "g 0 mod length (dp_options dp)"
  have lt: "?k < length ?keys" using assms by simp
  then have mem: "?keys ! ?k \<in> set ?keys" by (rule nth_mem)
  then obtain opt where "map_of (dp_options dp) (?keys ! ?k) = Some opt"
    by (cases "map_of (dp_options dp) (?keys ! ?k)") (auto simp: map_of_eq_None_iff)
  with False assms mem show ?thesis
    by (simp add: validate_choice_def random_choice_def randbelow_def)
qed

text \<open>Option B is kept; the label Z, which is no option, is replaced by a drawn option.\<close>

theorem resolver_returns_legal_label_witness:
  "(\<exists>d. fst (validate_choice dp_AB ''B'' ''it is safer'' counting) = Inr d \<and>
        choice d = ''B'' \<and> reasoning d = ''it is safer'') \<and>
   (\<exists>d. fst (validate_choice dp_AB ''Z'' ''it is safer'' counting) = Inr d \<and>
        choice d = ''A'' \<and> reasoning d = ''Default choice due to parsing error'')"
proof -
  have opts: "dp_options dp_AB \<noteq> []" by (simp add: dp_AB_def)
  have legal: "''B'' \<in> set (map fst (dp_options dp_AB))" "''Z'' \<notin> set (map fst (dp_options dp_AB))"
    by (simp_all add: dp_AB_def)
  have draw: "map fst (dp_options dp_AB) ! (counting 0 mod length (dp_options dp_AB)) = ''A''"
    by code_simp
  from resolver_returns_legal_label[OF opts, of "''B''" "''it is safer''" counting] legal(1)
  have "\<exists>d. fst (validate_choice dp_AB ''B'' ''it is safer'' counting) = Inr d \<and>
        choice d = ''B'' \<and> reasoning d = ''it is safer''"
    by (simp only: if_True) blast
  moreover
  from resolver_returns_legal_label[OF opts, of "''Z''" "''it is safer''" counting] legal(2)
  have "\<exists>d. fst (validate_choice dp_AB ''Z'' ''it is safer'' counting) = Inr d \<and>
        choice d = ''A'' \<and> reasoning d = ''Default choice due to parsing error''"
    unfolding draw by (simp only: if_False) blast
  ultimately show ?thesis ..
qed

section \<open>The decision extractor\<close>

text \<open>
  Claim C4, as worded, does not hold: \<open>parse_decision_response\<close> takes the text only, no
  set of legal labels, and its last default is the letter A. For a decision point whose
  options are B and C, a text without marker gives A, which is not the first option (and not
  an option at all).
\<close>

theorem decision_default_is_A_whatever_the_options:
  "parse_decision_response (PyStr ''I would stay out of it'') = Inr (''A'', ''Default reasoning'') \<and>
   map fst (dp_options dp_BC) = [''B'', ''C'']"
  by code_simp

text \<open>
  Claim C4, amended. For every text in which neither \<open>CHOICE:\<close> followed by one of the
  letters A to D (in either case) nor a line starting with one of the capital letters A to D
  and a separator is found, the extractor returns the label A, whatever the options of the
  decision point are.
\<close>

theorem decision_without_marker_is_A:
  assumes "re_search m_choice_label text = None"
    and "re_search_bol m_line_label True text = None"
  shows "\<exists>reason. parse_decision_response (PyStr text) = Inr (''A'', reason)"
proof (cases "text = []")
  case True
  then show ?thesis by (simp add: parse_decision_response_def bind_def)
next
  case False
  then show ?thesis using assms by (simp add: parse_decision_response_text)
qed

text \<open>A lower-case letter at the start of the line is no marker.\<close>

theorem decision_without_marker_is_A_witness:
  "\<exists>reason. parse_decision_response (PyStr ''b) I would stay out of it'') = Inr (''A'', reason)"
proof -
  have "re_search m_choice_label ''b) I would stay out of it'' = None"
       "re_search_bol m_line_label True ''b) I would stay out of it'' = None"
    by code_simp+
  then show ?thesis by (rule decision_without_marker_is_A)
qed

section \<open>The character extractor\<close>

lemma match_roster_find:
  "match_roster names c =
     (case find (\<lambda>n. contains (lower n) (lower c)) names of Some n \<Rightarrow> n | None \<Rightarrow> c)"
  by (induction names) simp_all

text \<open>
  Claim C6, as worded, does not hold. A \<open>CHOICE:\<close> marker followed by a name that is
  not in the roster gives that name back, not the default character; and the reasoning is
  searched for by itself, so a text without \<open>CHOICE:\<close> marker but with a
  \<open>REASONING:\<close> marker gives the default character with the reasoning found.
\<close>

theorem character_not_in_roster_is_returned:
  "parse_character_selection (PyStr ''CHOICE: Bob'') = Inr (''Bob'', ''Selected based on background'') \<and>
   parse_character_selection (PyStr ''REASONING: because'') = Inr (''Alex Chen'', ''because'')"
  by code_simp

text \<open>
  Claim C6, amended. For every text: the empty text gives \<open>"Alex Chen"\<close> and
  \<open>"Default selection due to invalid response"\<close>. Otherwise the character is
  \<open>"Alex Chen"\<close> when no \<open>CHOICE:\<close> marker is found; when one is found, it is the first
  name of the roster that the text after the marker contains, letter case ignored, and that
  text itself, trimmed, when it contains none. The reasoning is the text found after
  \<open>REASONING:\<close>, trimmed, and \<open>"Selected based on background"\<close> when there is no such
  marker, whatever the character is.
\<close>

theorem character_selection_of_text:
  "parse_character_selection (PyStr text) =
     Inr (if text = [] then (''Alex Chen'', ''Default selection due to invalid response'')
          else (case re_search m_choice_name text of
                  None \<Rightarrow> ''Alex Chen''
                | Some g \<Rightarrow>
                    (case find (\<lambda>n. contains (lower n) (lower (strip g))) roster of
                       Some n \<Rightarrow> n
                     | None \<Rightarrow> strip g),
                case re_search m_reasoning text of
                  None \<Rightarrow> ''Selected based on background''
                | Some g \<Rightarrow> strip g))"
proof (cases "text = []")
  case True
  then show ?thesis by (simp add: parse_character_selection_def bind_def)
next
  case False
  then show ?thesis
    by (simp add: parse_character_selection_text match_roster_find split: option.split)
qed

text \<open>A roster name in other letter case, and a text without markers.\<close>

theorem character_selection_of_text_witness:
  "parse_character_selection (PyStr ''Choice:  JORDAN williams!'') =
     Inr (''Jordan Williams'', ''Selected based on background'') \<and>
   parse_character_selection (PyStr ''I like the athlete'') =
     Inr (''Alex Chen'', ''Selected based on background'')"
proof -
  have a: "re_search m_choice_name ''Choice:  JORDAN williams!'' = Some ''JORDAN williams!''"
          "re_search m_reasoning ''Choice:  JORDAN williams!'' = None"
          "find (\<lambda>n. contains (lower n) (lower (strip ''JORDAN williams!''))) roster = Some ''Jordan Williams''"
          "re_search m_choice_name ''I like the athlete'' = None"
          "re_search m_reasoning ''I like the athlete'' = None"
    by code_simp+
  have "parse_character_selection (PyStr ''Choice:  JORDAN williams!'') =
     Inr (''Jordan Williams'', ''Selected based on background'')"
    using character_selection_of_text[of "''Choice:  JORDAN williams!''"]
    by (simp only: a list.distinct if_False option.case)
  moreover have "parse_character_selection (PyStr ''I like the athlete'') =
     Inr (''Alex Chen'', ''Selected based on background'')"
    using character_selection_of_text[of "''I like the athlete''"]
    by (simp only: a list.distinct if_False option.case)
  ultimately show ?thesis ..
qed

section \<open>The time of a scenario\<close>


lemma randint_180_420:
  "fst (randint 180 420 g) = 180 + int (g 0 mod 241)"
  by (simp add: randint_def randbelow_def)






section \<open>Saving the results\<close>







end
